theory Spec2Isabelle
  imports Complex_Main "HOL-Library.Char_ord" "HOL-Library.List_Lexorder" "HOL-Library.Multiset"
begin

section \<open>Data model\<close>

text \<open>
  The dashboard of \<^verbatim>\<open>src/app.py\<close> works on three tables. A table (a pandas
  DataFrame) is the list of its rows, in row order. A float cell is a \<open>real option\<close>:
  \<open>None\<close> is the missing value (NaN), \<open>Some v\<close> a number; floating-point rounding
  is abstracted to exact real arithmetic, and a float literal of the program stands for the
  real number it is written as. Route identifiers, periods and time buckets are strings,
  ordered as Python orders them (lexicographically by character code).
\<close>

record AccuracyRecord =
  routeID :: string
  timePeriod :: string
  Time_Bucket :: string
  accurate_pct :: "real option"
  early_pct :: "real option"
  late_pct :: "real option"
  totalPredictions :: int

text \<open>
  The coverage table keeps its own column name \<open>route\<close>; its other columns carry the
  prefix \<open>cov_\<close> here only because field names of different records must differ.
\<close>

record CoverageRecord =
  route :: string
  cov_timePeriod :: string
  cov_fractionTrackedExplained :: "real option"
  cov_fractionOnFullyMissingTrips :: "real option"

text \<open>A merged row is an accuracy row extended by the two coverage columns.\<close>

record MergedRecord = AccuracyRecord +
  fractionTrackedExplained :: "real option"
  fractionOnFullyMissingTrips :: "real option"

section \<open>The pandas operations the program calls\<close>

definition notna :: "real option \<Rightarrow> bool" where
  "notna x = (x \<noteq> None)"

definition fillna :: "real \<Rightarrow> real option \<Rightarrow> real option" where
  "fillna v x = (case x of None \<Rightarrow> Some v | Some y \<Rightarrow> Some y)"

text \<open>\<^verbatim>\<open>Series.unique()\<close>: the distinct values in order of first appearance.\<close>

definition pd_unique :: "'a list \<Rightarrow> 'a list" where
  "pd_unique xs = rev (remdups (rev xs))"

text \<open>\<^verbatim>\<open>Series.isin(values)\<close>, for one cell.\<close>

definition isin :: "'a \<Rightarrow> 'a list \<Rightarrow> bool" where
  "isin x vals = (x \<in> set vals)"

text \<open>Python's \<^verbatim>\<open>sorted\<close> on strings.\<close>

definition py_sorted :: "string list \<Rightarrow> string list" where
  "py_sorted xs = sort xs"

text \<open>
  \<^verbatim>\<open>pd.merge(left, right, on=['routeID', 'timePeriod'], how='left')\<close>: the left rows
  in their order; each left row is paired with every right row of the same key, in the
  right table's order, and yields one row with missing right columns when there is none.
\<close>

definition attach :: "AccuracyRecord \<Rightarrow> real option \<Rightarrow> real option \<Rightarrow> MergedRecord" where
  "attach a x y = AccuracyRecord.extend a (MergedRecord.fields x y)"

definition key_match :: "'a AccuracyRecord_scheme \<Rightarrow> CoverageRecord \<Rightarrow> bool" where
  "key_match a c = (route c = routeID a \<and> cov_timePeriod c = timePeriod a)"

definition merge_row :: "AccuracyRecord \<Rightarrow> CoverageRecord list \<Rightarrow> MergedRecord list" where
  "merge_row a cov =
     (case filter (key_match a) cov of
        [] \<Rightarrow> [attach a None None]
      | c # cs \<Rightarrow> map (\<lambda>c. attach a (cov_fractionTrackedExplained c)
                                    (cov_fractionOnFullyMissingTrips c)) (c # cs))"

definition pd_merge_left :: "AccuracyRecord list \<Rightarrow> CoverageRecord list \<Rightarrow> MergedRecord list" where
  "pd_merge_left acc cov = concat (map (\<lambda>a. merge_row a cov) acc)"

definition np_mean :: "real list \<Rightarrow> real" where
  "np_mean xs = sum_list xs / real (length xs)"

text \<open>
  \<^verbatim>\<open>np.corrcoef(a, b)[0, 1]\<close>: the covariance matrix with divisor \<open>n - 1\<close>, divided by
  the two standard deviations one after the other, then clipped to \<open>[-1, 1]\<close>, all in
  double-precision floating point. On fewer than two points the deviations are exactly
  zero and so is the divisor: zero is divided by zero and the result is NaN. On two or
  more points the result depends on how the mean and the sums are rounded: on a constant
  column the rounded mean can differ from the values, and the result is then 1.0 or 0.0
  where exact arithmetic divides zero by zero. The real numbers of the cells do not carry
  that rounding, so the value on two or more points is that of the argument \<open>fp\<close>, which
  stands for numpy's floating-point evaluation of the formula (a number in \<open>[-1, 1]\<close>,
  or \<open>None\<close> for NaN).
\<close>

type_synonym corrcoef_fp = "real list \<Rightarrow> real list \<Rightarrow> real option"

definition np_corrcoef :: "corrcoef_fp \<Rightarrow> real list \<Rightarrow> real list \<Rightarrow> real option" where
  "np_corrcoef fp a b = (if length a < 2 then None else fp a b)"

text \<open>
  \<^verbatim>\<open>nanops.nancorr\<close>: keep the positions where both series have a value
  (\<^verbatim>\<open>valid = notna(a) & notna(b)\<close>, \<^verbatim>\<open>a[valid]\<close>, \<^verbatim>\<open>b[valid]\<close>), return NaN when
  fewer than \<^verbatim>\<open>min_periods = 1\<close> positions remain, else the Pearson function.
\<close>

definition take_valid :: "'a list \<Rightarrow> bool list \<Rightarrow> 'a list" where
  "take_valid a valid = map fst (filter snd (zip a valid))"

definition nancorr ::
  "corrcoef_fp \<Rightarrow> real option list \<Rightarrow> real option list \<Rightarrow> real option" where
  "nancorr fp a b =
     (let valid = map2 (\<lambda>x y. notna x \<and> notna y) a b;
          a' = take_valid a valid;
          b' = take_valid b valid
      in if length a' < 1 then None else np_corrcoef fp (map the a') (map the b'))"

text \<open>
  \<^verbatim>\<open>Series.corr(other)\<close> with the default method: both series are columns of one frame,
  so the index alignment changes nothing; an empty series gives NaN.
\<close>

definition Series_corr ::
  "corrcoef_fp \<Rightarrow> real option list \<Rightarrow> real option list \<Rightarrow> real option" where
  "Series_corr fp this other = (if length this = 0 then None else nancorr fp this other)"

text \<open>\<^verbatim>\<open>Series.mean()\<close> of a group: missing values are skipped; NaN when none is left.\<close>

definition present :: "real option list \<Rightarrow> real list" where
  "present xs = map the (filter notna xs)"

definition nanmean :: "real option list \<Rightarrow> real option" where
  "nanmean xs = (if present xs = [] then None else Some (np_mean (present xs)))"

text \<open>\<^verbatim>\<open>groupby(col)\<close> with its default \<^verbatim>\<open>sort=True\<close>: one group per distinct key,
  the keys in ascending order.\<close>

definition group_keys :: "string list \<Rightarrow> string list" where
  "group_keys ks = sort (pd_unique ks)"

text \<open>
  \<^verbatim>\<open>sort_values(by=col, ascending=False)\<close> on a frame of (key, value) rows, as
  \<^verbatim>\<open>nargsort\<close> does it: the rows with a value are reversed, sorted ascending, and the
  result reversed; the rows with NaN come last. The sort is taken to be stable.
\<close>

definition sort_values_desc :: "('k \<times> real option) list \<Rightarrow> ('k \<times> real option) list" where
  "sort_values_desc rows =
     rev (sort_key (\<lambda>r. the (snd r)) (rev (filter (\<lambda>r. notna (snd r)) rows)))
       @ filter (\<lambda>r. \<not> notna (snd r)) rows"

section \<open>Loading and merging (\<open>load_data\<close>)\<close>

text \<open>
  \<open>df_merged_of\<close> is the body of the \<^verbatim>\<open>try\<close> block once both files are parsed and
  the merge has accepted their key columns: the left merge on the coverage columns (the rename of \<open>route\<close> to \<open>routeID\<close> is the
  comparison in \<open>key_match\<close>, the column selection is the two attached fields), then
  \<^verbatim>\<open>fillna(-1)\<close> on \<open>fractionTrackedExplained\<close> only.
\<close>

definition df_merged_of :: "AccuracyRecord list \<Rightarrow> CoverageRecord list \<Rightarrow> MergedRecord list" where
  "df_merged_of df_accuracy df_coverage =
     map (\<lambda>m. m\<lparr>fractionTrackedExplained := fillna (- 1) (fractionTrackedExplained m)\<rparr>)
       (pd_merge_left df_accuracy df_coverage)"

text \<open>
  Every exception inside the \<^verbatim>\<open>try\<close> is caught by the handler, which reports the error
  and stops the run. There are two ways to raise.
  \<^item> A file that \<^verbatim>\<open>pd.read_csv\<close> cannot read, or that lacks a column the merge needs:
    the outcome of parsing that file is \<open>None\<close>.
  \<^item> \<^verbatim>\<open>pd.merge\<close> itself: before it joins, it compares the dtypes that
    \<^verbatim>\<open>read_csv\<close> inferred for the key columns of the two tables, and raises when they
    cannot be compared (\<open>routeID\<close> read as integers in one file and as text in the other).
    The rows of this model hold the keys as text and not the inferred dtypes, so the
    outcome of that check is the argument \<open>keys_accepted\<close>.
  Only when both files are parsed and the merge accepts their keys is there a merged table.
\<close>

datatype run_error = Load_error

definition load_data ::
  "AccuracyRecord list option \<Rightarrow> CoverageRecord list option \<Rightarrow> bool \<Rightarrow>
   run_error + (AccuracyRecord list \<times> CoverageRecord list \<times> MergedRecord list)" where
  "load_data file_acc file_cov keys_accepted =
     (case (file_acc, file_cov) of
        (Some df_accuracy, Some df_coverage) \<Rightarrow>
          if keys_accepted
          then Inr (df_accuracy, df_coverage, df_merged_of df_accuracy df_coverage)
          else Inl Load_error
      | _ \<Rightarrow> Inl Load_error)"

definition df_corr_analysis :: "MergedRecord list \<Rightarrow> MergedRecord list" where
  "df_corr_analysis df_merged = filter (\<lambda>m. fractionTrackedExplained m \<noteq> Some (- 1)) df_merged"

section \<open>Filters\<close>

definition unique_periods :: "MergedRecord list \<Rightarrow> string list" where
  "unique_periods df_merged = pd_unique (map timePeriod df_merged)"

definition unique_routes :: "MergedRecord list \<Rightarrow> string list" where
  "unique_routes df_merged = py_sorted (pd_unique (map routeID df_merged))"

definition default_selected_periods :: "MergedRecord list \<Rightarrow> string list" where
  "default_selected_periods df_merged = unique_periods df_merged"

definition default_selected_routes :: "MergedRecord list \<Rightarrow> string list" where
  "default_selected_routes df_merged = take 10 (unique_routes df_merged)"

text \<open>A multiselect widget returns some of its options.\<close>

definition selectable :: "string list \<Rightarrow> string list \<Rightarrow> bool" where
  "selectable options selected = (set selected \<subseteq> set options)"

definition df_merged_filtered ::
  "MergedRecord list \<Rightarrow> string list \<Rightarrow> string list \<Rightarrow> MergedRecord list" where
  "df_merged_filtered corr_analysis selected_periods selected_routes =
     filter (\<lambda>r. isin (timePeriod r) selected_periods \<and> isin (routeID r) selected_routes)
       corr_analysis"

definition df_acc_filtered ::
  "AccuracyRecord list \<Rightarrow> string list \<Rightarrow> string list \<Rightarrow> AccuracyRecord list" where
  "df_acc_filtered df_accuracy selected_periods selected_routes =
     filter (\<lambda>r. isin (timePeriod r) selected_periods \<and> isin (routeID r) selected_routes)
       df_accuracy"

definition df_cov_filtered ::
  "CoverageRecord list \<Rightarrow> string list \<Rightarrow> string list \<Rightarrow> CoverageRecord list" where
  "df_cov_filtered df_coverage selected_periods selected_routes =
     filter (\<lambda>r. isin (cov_timePeriod r) selected_periods \<and> isin (route r) selected_routes)
       df_coverage"

section \<open>Tab 1: correlation\<close>

definition correlation :: "corrcoef_fp \<Rightarrow> MergedRecord list \<Rightarrow> real option" where
  "correlation fp merged_filtered =
     Series_corr fp (map fractionTrackedExplained merged_filtered)
                    (map accurate_pct merged_filtered)"

text \<open>A comparison with NaN is false in Python.\<close>

definition float_gt :: "real option \<Rightarrow> real \<Rightarrow> bool" where
  "float_gt x c = (case x of None \<Rightarrow> False | Some v \<Rightarrow> v > c)"

definition float_lt :: "real option \<Rightarrow> real \<Rightarrow> bool" where
  "float_lt x c = (case x of None \<Rightarrow> False | Some v \<Rightarrow> v < c)"

text \<open>
  The four messages below the metric: \<^verbatim>\<open>st.success\<close> (strong positive),
  \<^verbatim>\<open>st.info\<close> (moderate positive), \<^verbatim>\<open>st.warning\<close> (negative) and the final
  \<^verbatim>\<open>st.info\<close> (no clear correlation).
\<close>

datatype band = Strong_positive | Moderate_positive | Negative_unexpected | No_clear_correlation

definition band_of :: "real option \<Rightarrow> band" where
  "band_of c =
     (if float_gt c 0.5 then Strong_positive
      else if float_gt c 0.2 then Moderate_positive
      else if float_lt c (- 0.2) then Negative_unexpected
      else No_clear_correlation)"

text \<open>
  What the correlation column shows: the metric (the coefficient formatted with
  \<^verbatim>\<open>.2%\<close>, which prints \<^verbatim>\<open>nan%\<close> for NaN) with its band message, or the warning
  that there is no data.
\<close>

datatype tab1_correlation = Metric "real option" band | Warning_no_data

definition tab1 :: "corrcoef_fp \<Rightarrow> MergedRecord list \<Rightarrow> tab1_correlation" where
  "tab1 fp merged_filtered =
     (if merged_filtered \<noteq> []
      then Metric (correlation fp merged_filtered) (band_of (correlation fp merged_filtered))
      else Warning_no_data)"

section \<open>Tabs 2 and 3: aggregation views\<close>

definition df_grouped ::
  "AccuracyRecord list \<Rightarrow> (string \<times> real option \<times> real option \<times> real option) list" where
  "df_grouped acc_filtered =
     map (\<lambda>k. (k, nanmean (map accurate_pct (filter (\<lambda>r. Time_Bucket r = k) acc_filtered)),
                  nanmean (map early_pct (filter (\<lambda>r. Time_Bucket r = k) acc_filtered)),
                  nanmean (map late_pct (filter (\<lambda>r. Time_Bucket r = k) acc_filtered))))
       (group_keys (map Time_Bucket acc_filtered))"

definition df_grouped_route :: "AccuracyRecord list \<Rightarrow> (string \<times> real option) list" where
  "df_grouped_route acc_filtered =
     sort_values_desc
       (map (\<lambda>k. (k, nanmean (map accurate_pct (filter (\<lambda>r. routeID r = k) acc_filtered))))
          (group_keys (map routeID acc_filtered)))"

definition df_grouped_period :: "CoverageRecord list \<Rightarrow> (string \<times> real option) list" where
  "df_grouped_period cov_filtered =
     map (\<lambda>k. (k, nanmean (map cov_fractionTrackedExplained
                              (filter (\<lambda>r. cov_timePeriod r = k) cov_filtered))))
       (group_keys (map cov_timePeriod cov_filtered))"

definition df_grouped_route_cov :: "CoverageRecord list \<Rightarrow> (string \<times> real option) list" where
  "df_grouped_route_cov cov_filtered =
     sort_values_desc
       (map (\<lambda>k. (k, nanmean (map cov_fractionTrackedExplained
                                 (filter (\<lambda>r. route r = k) cov_filtered))))
          (group_keys (map route cov_filtered)))"

text \<open>Each of the two tabs draws its two charts, or shows the "no data" message.\<close>

datatype ('a, 'b) tab_view = Charts 'a 'b | Info_no_data

definition tab2 ::
  "AccuracyRecord list \<Rightarrow>
   ((string \<times> real option \<times> real option \<times> real option) list, (string \<times> real option) list) tab_view" where
  "tab2 acc_filtered =
     (if acc_filtered \<noteq> []
      then Charts (df_grouped acc_filtered) (df_grouped_route acc_filtered)
      else Info_no_data)"

definition tab3 ::
  "CoverageRecord list \<Rightarrow> ((string \<times> real option) list, (string \<times> real option) list) tab_view" where
  "tab3 cov_filtered =
     (if cov_filtered \<noteq> []
      then Charts (df_grouped_period cov_filtered) (df_grouped_route_cov cov_filtered)
      else Info_no_data)"

section \<open>Tab 4: raw and merged data\<close>

text \<open>The merged table on display is \<open>df_merged_filtered\<close>, with its row count.\<close>

definition tab4_merged :: "MergedRecord list \<Rightarrow> nat \<times> MergedRecord list" where
  "tab4_merged merged_filtered = (length merged_filtered, merged_filtered)"

definition tab4_raw ::
  "AccuracyRecord list \<Rightarrow> CoverageRecord list \<Rightarrow> AccuracyRecord list \<times> CoverageRecord list" where
  "tab4_raw df_accuracy df_coverage = (take 1000 df_accuracy, take 1000 df_coverage)"

section \<open>Keys and example tables\<close>

text \<open>The key pair of a coverage row, on which the merge joins.\<close>

definition coverage_key :: "CoverageRecord \<Rightarrow> string \<times> string" where
  "coverage_key c = (route c, cov_timePeriod c)"

text \<open>
  Three accuracy rows and three coverage rows: route 10 is covered in both periods,
  route 20 has no coverage row, and route 30 occurs in the coverage table only.
\<close>

definition ex_a1 :: AccuracyRecord where
  "ex_a1 = \<lparr>routeID = ''10'', timePeriod = ''AM'', Time_Bucket = ''0-5'',
            accurate_pct = Some 0.8, early_pct = Some 0.1, late_pct = Some 0.1,
            totalPredictions = 100\<rparr>"

definition ex_a2 :: AccuracyRecord where
  "ex_a2 = \<lparr>routeID = ''10'', timePeriod = ''PM'', Time_Bucket = ''0-5'',
            accurate_pct = Some 0.6, early_pct = Some 0.3, late_pct = Some 0.1,
            totalPredictions = 80\<rparr>"

definition ex_a3 :: AccuracyRecord where
  "ex_a3 = \<lparr>routeID = ''20'', timePeriod = ''AM'', Time_Bucket = ''5-10'',
            accurate_pct = Some 0.5, early_pct = Some 0.2, late_pct = Some 0.3,
            totalPredictions = 40\<rparr>"

definition ex_c1 :: CoverageRecord where
  "ex_c1 = \<lparr>route = ''10'', cov_timePeriod = ''AM'',
            cov_fractionTrackedExplained = Some 0.9,
            cov_fractionOnFullyMissingTrips = Some 0.05\<rparr>"

definition ex_c2 :: CoverageRecord where
  "ex_c2 = \<lparr>route = ''10'', cov_timePeriod = ''PM'',
            cov_fractionTrackedExplained = Some 0.7,
            cov_fractionOnFullyMissingTrips = None\<rparr>"

definition ex_c3 :: CoverageRecord where
  "ex_c3 = \<lparr>route = ''30'', cov_timePeriod = ''AM'',
            cov_fractionTrackedExplained = Some 0.4,
            cov_fractionOnFullyMissingTrips = Some 0.2\<rparr>"

section \<open>The correlation as the specification describes it\<close>





section \<open>The coefficient in exact arithmetic\<close>

text \<open>
  The formula of \<^verbatim>\<open>np.corrcoef\<close> evaluated in the real numbers: the entries of the
  covariance matrix, the division by the two standard deviations, the clipping. Where
  every floating-point step of numpy is exact this is the number numpy returns; elsewhere
  it is not what the program shows, and no statement about the program below rests on it.
\<close>

definition exact_cov :: "real list \<Rightarrow> real list \<Rightarrow> real" where
  "exact_cov a b =
     sum_list (map2 (*) (map (\<lambda>x. x - np_mean a) a) (map (\<lambda>y. y - np_mean b) b))
       / (real (length a) - 1)"

definition np_clip :: "real \<Rightarrow> real \<Rightarrow> real \<Rightarrow> real" where
  "np_clip x lo hi = min (max x lo) hi"

definition exact_corrcoef :: corrcoef_fp where
  "exact_corrcoef a b =
     (if exact_cov a a = 0 \<or> exact_cov b b = 0 then None
      else Some (np_clip (exact_cov a b / sqrt (exact_cov a a) / sqrt (exact_cov b b)) (- 1) 1))"

text \<open>
  The textbook formula of the Pearson coefficient: the sum of the products of the
  deviations from the two means, divided by the square root of the product of the two sums
  of squared deviations; undefined for fewer than two pairs and when either sum of squares
  is zero.
\<close>

definition pearson :: "(real \<times> real) list \<Rightarrow> real option" where
  "pearson ps =
     (let n = real (length ps);
          mx = sum_list (map fst ps) / n;
          my = sum_list (map snd ps) / n;
          sxy = sum_list (map (\<lambda>(x, y). (x - mx) * (y - my)) ps);
          sxx = sum_list (map (\<lambda>(x, y). (x - mx)\<^sup>2) ps);
          syy = sum_list (map (\<lambda>(x, y). (y - my)\<^sup>2) ps)
      in if length ps < 2 \<or> sxx = 0 \<or> syy = 0 then None
         else Some (sxy / sqrt (sxx * syy)))"





section \<open>Descending order with NaN last\<close>

text \<open>
  \<open>ge_nan_last x y\<close> says that a value \<open>x\<close> may stand before \<open>y\<close> in a column sorted
  in descending order with the missing values at the end.
\<close>

definition ge_nan_last :: "real option \<Rightarrow> real option \<Rightarrow> bool" where
  "ge_nan_last x y =
     (case y of None \<Rightarrow> True | Some b \<Rightarrow> (case x of None \<Rightarrow> False | Some a \<Rightarrow> b \<le> a))"

text \<open>
  Five accuracy rows of three routes, whose mean accuracies are 0.7 for A, 0.9 for B and
  0.5 for C.
\<close>

definition ex_route_row :: "string \<Rightarrow> real \<Rightarrow> AccuracyRecord" where
  "ex_route_row r p = \<lparr>routeID = r, timePeriod = ''AM'', Time_Bucket = ''0-5'',
            accurate_pct = Some p, early_pct = None, late_pct = None,
            totalPredictions = 10\<rparr>"

definition ex_routes :: "AccuracyRecord list" where
  "ex_routes = [ex_route_row ''A'' 0.6, ex_route_row ''B'' 0.9, ex_route_row ''C'' 0.4,
                ex_route_row ''A'' 0.8, ex_route_row ''C'' 0.6]"

section \<open>Basic facts\<close>

lemmas ex_defs = ex_a1_def ex_a2_def ex_a3_def ex_c1_def ex_c2_def ex_c3_def

lemmas eval_defs = df_merged_of_def pd_merge_left_def merge_row_def key_match_def
  attach_def AccuracyRecord.defs MergedRecord.defs fillna_def df_corr_analysis_def
  df_merged_filtered_def df_acc_filtered_def df_cov_filtered_def isin_def
  unique_periods_def unique_routes_def default_selected_periods_def
  default_selected_routes_def pd_unique_def py_sorted_def coverage_key_def

lemma attach_fields [simp]:
  "routeID (attach a x y) = routeID a"
  "timePeriod (attach a x y) = timePeriod a"
  "Time_Bucket (attach a x y) = Time_Bucket a"
  "accurate_pct (attach a x y) = accurate_pct a"
  "early_pct (attach a x y) = early_pct a"
  "late_pct (attach a x y) = late_pct a"
  "totalPredictions (attach a x y) = totalPredictions a"
  "fractionTrackedExplained (attach a x y) = x"
  "fractionOnFullyMissingTrips (attach a x y) = y"
  "AccuracyRecord.truncate (attach a x y) = a"
  by (simp_all add: attach_def AccuracyRecord.defs MergedRecord.defs)

lemma truncate_fill [simp]:
  "AccuracyRecord.truncate (m\<lparr>fractionTrackedExplained := v\<rparr>) = AccuracyRecord.truncate m"
  by (simp add: AccuracyRecord.defs)

lemma attach_fill [simp]:
  "(attach a x y)\<lparr>fractionTrackedExplained := v\<rparr> = attach a v y"
  by (simp add: attach_def AccuracyRecord.defs MergedRecord.defs)

lemma key_match_attach [simp]: "key_match (attach a x y) c = key_match a c"
  by (simp add: key_match_def)

lemma key_match_fill [simp]:
  "key_match (m\<lparr>fractionTrackedExplained := v\<rparr>) c = key_match m c"
  by (simp add: key_match_def)

lemma key_match_conv: "key_match a = (\<lambda>c. coverage_key c = (routeID a, timePeriod a))"
  by (auto simp: key_match_def coverage_key_def fun_eq_iff)

subsection \<open>One accuracy row in the merge\<close>

lemma merge_row_unmatched:
  "filter (key_match a) cov = [] \<Longrightarrow> merge_row a cov = [attach a None None]"
  by (simp add: merge_row_def)

lemma merge_row_matched:
  "filter (key_match a) cov \<noteq> [] \<Longrightarrow>
   merge_row a cov = map (\<lambda>c. attach a (cov_fractionTrackedExplained c)
                                    (cov_fractionOnFullyMissingTrips c)) (filter (key_match a) cov)"
  by (cases "filter (key_match a) cov") (simp_all add: merge_row_def)

lemma merge_row_truncate: "m \<in> set (merge_row a cov) \<Longrightarrow> AccuracyRecord.truncate m = a"
  by (cases "filter (key_match a) cov") (auto simp: merge_row_def)

lemma merge_row_key: "m \<in> set (merge_row a cov) \<Longrightarrow> key_match m c = key_match a c"
  by (cases "filter (key_match a) cov") (auto simp: merge_row_def)

lemma distinct_filter_le_one:
  "distinct (map f xs) \<Longrightarrow> length (filter (\<lambda>x. f x = k) xs) \<le> 1"
proof (induction xs)
  case Nil
  then show ?case by simp
next
  case (Cons x xs)
  show ?case
  proof (cases "f x = k")
    case True
    have "f y \<noteq> k" if "y \<in> set xs" for y
    proof
      assume "f y = k"
      with True have "f x = f y" by simp
      moreover from that have "f y \<in> f ` set xs" by (rule imageI)
      moreover from Cons.prems have "f x \<notin> f ` set xs" by simp
      ultimately show False by simp
    qed
    then have "filter (\<lambda>x. f x = k) xs = []"
      by (simp add: filter_empty_conv)
    with True show ?thesis by simp
  next
    case False
    with Cons show ?thesis by simp
  qed
qed

lemma merge_row_length_unique:
  assumes "distinct (map coverage_key cov)"
  shows "length (merge_row a cov) = 1"
proof (cases "filter (key_match a) cov")
  case Nil
  then show ?thesis by (simp add: merge_row_def)
next
  case (Cons c cs)
  have "length (filter (key_match a) cov) \<le> 1"
    unfolding key_match_conv using assms by (rule distinct_filter_le_one)
  with Cons show ?thesis by (simp add: merge_row_def)
qed

lemma merge_row_truncate_unique:
  assumes "distinct (map coverage_key cov)"
  shows "map AccuracyRecord.truncate (merge_row a cov) = [a]"
proof -
  obtain m where m: "merge_row a cov = [m]"
    using merge_row_length_unique [OF assms, of a]
    by (cases "merge_row a cov") auto
  then have "AccuracyRecord.truncate m = a"
    using merge_row_truncate [of m a cov] by simp
  with m show ?thesis by simp
qed

subsection \<open>The whole merge\<close>

lemma pd_merge_left_length_unique:
  "distinct (map coverage_key cov) \<Longrightarrow> length (pd_merge_left acc cov) = length acc"
  by (induction acc) (simp_all add: pd_merge_left_def merge_row_length_unique)

lemma pd_merge_left_truncate_unique:
  "distinct (map coverage_key cov) \<Longrightarrow>
   map AccuracyRecord.truncate (pd_merge_left acc cov) = acc"
  by (induction acc) (simp_all add: pd_merge_left_def merge_row_truncate_unique)

lemma in_df_merged_of:
  "m \<in> set (df_merged_of acc cov) \<longleftrightarrow>
   (\<exists>a \<in> set acc. \<exists>m0 \<in> set (merge_row a cov).
      m = m0\<lparr>fractionTrackedExplained := fillna (- 1) (fractionTrackedExplained m0)\<rparr>)"
  by (auto simp: df_merged_of_def pd_merge_left_def)

lemma unmatched_merged_row:
  assumes "m \<in> set (df_merged_of acc cov)" and "\<forall>c \<in> set cov. \<not> key_match m c"
  shows "\<exists>a \<in> set acc. m = attach a (Some (- 1)) None"
proof -
  from assms(1) obtain a m0 where a: "a \<in> set acc" and m0: "m0 \<in> set (merge_row a cov)"
    and m: "m = m0\<lparr>fractionTrackedExplained := fillna (- 1) (fractionTrackedExplained m0)\<rparr>"
    by (auto simp: in_df_merged_of)
  have "key_match a c = key_match m c" for c
    using merge_row_key [OF m0, of c] m by simp
  with assms(2) have "filter (key_match a) cov = []"
    by (simp add: filter_empty_conv)
  then have "merge_row a cov = [attach a None None]"
    by (rule merge_row_unmatched)
  with m0 m have "m = attach a (Some (- 1)) None"
    by (simp add: fillna_def)
  with a show ?thesis by blast
qed

lemma unmatched_accuracy_row:
  assumes "a \<in> set acc" and "\<forall>c \<in> set cov. \<not> key_match a c"
  shows "attach a (Some (- 1)) None \<in> set (df_merged_of acc cov)"
proof -
  from assms(2) have "filter (key_match a) cov = []"
    by (simp add: filter_empty_conv)
  then have "attach a None None \<in> set (merge_row a cov)"
    by (simp add: merge_row_unmatched)
  with assms(1) show ?thesis
    unfolding in_df_merged_of
    by (intro bexI [of _ a] bexI [of _ "attach a None None"]) (simp_all add: fillna_def)
qed

section \<open>The merge keeps the accuracy rows\<close>

lemma load_data_Inr:
  "load_data file_acc file_cov keys_accepted = Inr (df_accuracy, df_coverage, df_merged) \<longleftrightarrow>
   file_acc = Some df_accuracy \<and> file_cov = Some df_coverage \<and> keys_accepted \<and>
   df_merged = df_merged_of df_accuracy df_coverage"
  by (auto simp: load_data_def split: option.splits)

lemma load_data_keys_rejected: "load_data file_acc file_cov False = Inl Load_error"
  by (simp add: load_data_def split: option.splits)

lemma df_merged_of_length_unique:
  "distinct (map coverage_key cov) \<Longrightarrow> length (df_merged_of acc cov) = length acc"
  by (simp add: df_merged_of_def pd_merge_left_length_unique)

lemma df_merged_of_truncate_unique:
  "distinct (map coverage_key cov) \<Longrightarrow>
   map AccuracyRecord.truncate (df_merged_of acc cov) = acc"
  by (simp add: df_merged_of_def comp_def pd_merge_left_truncate_unique)

text \<open>
  Claim C1. Whenever loading produces a merged table (both files are parsed and the merge
  accepts their key columns) and no two coverage rows share a (route, timePeriod) key, the
  merged table has exactly as many rows as the accuracy table; more than that, dropping
  the two coverage columns from the merged table gives back the accuracy table row for
  row, so no accuracy row is lost or repeated.
\<close>

theorem merge_preserves_accuracy_rows:
  "load_data file_acc file_cov keys_accepted = Inr (df_accuracy, df_coverage, df_merged) \<Longrightarrow>
   distinct (map coverage_key df_coverage) \<Longrightarrow>
   length df_merged = length df_accuracy \<and>
   map AccuracyRecord.truncate df_merged = df_accuracy"
  by (simp add: load_data_Inr df_merged_of_length_unique df_merged_of_truncate_unique)

theorem merge_preserves_accuracy_rows_witness:
  "load_data (Some [ex_a1, ex_a2, ex_a3]) (Some [ex_c1, ex_c2, ex_c3]) True
     = Inr ([ex_a1, ex_a2, ex_a3], [ex_c1, ex_c2, ex_c3],
            [attach ex_a1 (Some 0.9) (Some 0.05), attach ex_a2 (Some 0.7) None,
             attach ex_a3 (Some (- 1)) None]) \<and>
   distinct (map coverage_key [ex_c1, ex_c2, ex_c3]) \<and>
   length [attach ex_a1 (Some 0.9) (Some 0.05), attach ex_a2 (Some 0.7) None,
           attach ex_a3 (Some (- 1)) None] = length [ex_a1, ex_a2, ex_a3] \<and>
   map AccuracyRecord.truncate
     [attach ex_a1 (Some 0.9) (Some 0.05), attach ex_a2 (Some 0.7) None,
      attach ex_a3 (Some (- 1)) None] = [ex_a1, ex_a2, ex_a3]"
proof -
  have m: "df_merged_of [ex_a1, ex_a2, ex_a3] [ex_c1, ex_c2, ex_c3] =
     [attach ex_a1 (Some 0.9) (Some 0.05), attach ex_a2 (Some 0.7) None,
      attach ex_a3 (Some (- 1)) None]"
    by (simp add: eval_defs ex_defs)
  have l: "load_data (Some [ex_a1, ex_a2, ex_a3]) (Some [ex_c1, ex_c2, ex_c3]) True
     = Inr ([ex_a1, ex_a2, ex_a3], [ex_c1, ex_c2, ex_c3],
            [attach ex_a1 (Some 0.9) (Some 0.05), attach ex_a2 (Some 0.7) None,
             attach ex_a3 (Some (- 1)) None])"
    by (simp add: load_data_def m)
  have d: "distinct (map coverage_key [ex_c1, ex_c2, ex_c3])"
    by (simp add: coverage_key_def ex_defs)
  from merge_preserves_accuracy_rows [OF l d] l d show ?thesis by simp
qed

section \<open>Correlation bands\<close>

text \<open>
  Claim C3. The band of a computed correlation value \<open>v\<close> is "strong positive" when
  \<open>v > 0.5\<close>, "moderate positive" when \<open>0.2 < v \<le> 0.5\<close>, "negative (unexpected)"
  when \<open>v < -0.2\<close>, and "no clear correlation" when \<open>-0.2 \<le> v \<le> 0.2\<close>; the values
  0.6, 0.3, -0.3 and 0.1 fall into these four bands in this order.
\<close>

theorem correlation_bands:
  "(v > 0.5 \<longrightarrow> band_of (Some v) = Strong_positive) \<and>
   (0.2 < v \<and> v \<le> 0.5 \<longrightarrow> band_of (Some v) = Moderate_positive) \<and>
   (v < - 0.2 \<longrightarrow> band_of (Some v) = Negative_unexpected) \<and>
   (- 0.2 \<le> v \<and> v \<le> 0.2 \<longrightarrow> band_of (Some v) = No_clear_correlation) \<and>
   band_of (Some 0.6) = Strong_positive \<and>
   band_of (Some 0.3) = Moderate_positive \<and>
   band_of (Some (- 0.3)) = Negative_unexpected \<and>
   band_of (Some 0.1) = No_clear_correlation"
  by (simp add: band_of_def float_gt_def float_lt_def)

theorem correlation_bands_witness:
  "((0.75::real) > 0.5 \<and> band_of (Some 0.75) = Strong_positive) \<and>
   ((0.2::real) < 0.5 \<and> (0.5::real) \<le> 0.5 \<and> band_of (Some 0.5) = Moderate_positive) \<and>
   ((- 1::real) < - 0.2 \<and> band_of (Some (- 1)) = Negative_unexpected) \<and>
   ((- 0.2::real) \<le> 0.2 \<and> (0.2::real) \<le> 0.2 \<and> band_of (Some 0.2) = No_clear_correlation)"
  using correlation_bands [of "0.75"] correlation_bands [of "0.5"]
    correlation_bands [of "- 1"] correlation_bands [of "0.2"]
  by simp

section \<open>Rows without a coverage match\<close>

text \<open>
  Claim C6. A merged row whose key has no coverage row has \<open>fractionTrackedExplained\<close>
  equal to -1 and \<open>fractionOnFullyMissingTrips\<close> missing; and every accuracy row without
  a coverage match appears in the merged table in exactly this form.
\<close>

theorem unmatched_row_sentinel_asymmetry:
  "(m \<in> set (df_merged_of df_accuracy df_coverage) \<and>
      (\<forall>c \<in> set df_coverage. \<not> key_match m c) \<longrightarrow>
      fractionTrackedExplained m = Some (- 1) \<and> fractionOnFullyMissingTrips m = None) \<and>
   (a \<in> set df_accuracy \<and> (\<forall>c \<in> set df_coverage. \<not> key_match a c) \<longrightarrow>
      attach a (Some (- 1)) None \<in> set (df_merged_of df_accuracy df_coverage))"
  using unmatched_merged_row [of m df_accuracy df_coverage]
    unmatched_accuracy_row [of a df_accuracy df_coverage]
  by auto

theorem unmatched_row_sentinel_asymmetry_witness:
  "attach ex_a3 (Some (- 1)) None \<in> set (df_merged_of [ex_a1, ex_a2, ex_a3] [ex_c1, ex_c2, ex_c3]) \<and>
   ex_a3 \<in> set [ex_a1, ex_a2, ex_a3] \<and>
   \<not> key_match ex_a3 ex_c1 \<and> \<not> key_match ex_a3 ex_c2 \<and> \<not> key_match ex_a3 ex_c3 \<and>
   fractionTrackedExplained (attach ex_a3 (Some (- 1)) None) = Some (- 1) \<and>
   fractionOnFullyMissingTrips (attach ex_a3 (Some (- 1)) None) = None"
  using unmatched_row_sentinel_asymmetry [of "attach ex_a3 (Some (- 1)) None"
      "[ex_a1, ex_a2, ex_a3]" "[ex_c1, ex_c2, ex_c3]" ex_a3]
  by (simp add: key_match_def ex_defs)

text \<open>
  Claim C4, as the program has it. A merged row whose key has no coverage row carries
  \<open>fractionTrackedExplained = -1\<close> in the merge output and is excluded from the
  correlation input. The merged table shown in tab 4 is that filtered correlation input,
  so the row is not shown there either, whatever the selection. It is kept in the merge
  output itself: every accuracy row without a coverage match is a row of \<open>df_merged\<close>.
\<close>

theorem unmatched_row_sentinel_excluded:
  "(m \<in> set (df_merged_of df_accuracy df_coverage) \<and>
      (\<forall>c \<in> set df_coverage. \<not> key_match m c) \<longrightarrow>
      fractionTrackedExplained m = Some (- 1) \<and>
      m \<notin> set (df_corr_analysis (df_merged_of df_accuracy df_coverage)) \<and>
      m \<notin> set (df_merged_filtered (df_corr_analysis (df_merged_of df_accuracy df_coverage))
                 selected_periods selected_routes) \<and>
      m \<notin> set (snd (tab4_merged
                 (df_merged_filtered (df_corr_analysis (df_merged_of df_accuracy df_coverage))
                    selected_periods selected_routes)))) \<and>
   (a \<in> set df_accuracy \<and> (\<forall>c \<in> set df_coverage. \<not> key_match a c) \<longrightarrow>
      attach a (Some (- 1)) None \<in> set (df_merged_of df_accuracy df_coverage))"
proof (intro conjI impI; elim conjE)
  assume "m \<in> set (df_merged_of df_accuracy df_coverage)"
    and "\<forall>c \<in> set df_coverage. \<not> key_match m c"
  then have "fractionTrackedExplained m = Some (- 1)"
    using unmatched_merged_row [of m df_accuracy df_coverage] by auto
  then show "fractionTrackedExplained m = Some (- 1)"
    and "m \<notin> set (df_corr_analysis (df_merged_of df_accuracy df_coverage))"
    and "m \<notin> set (df_merged_filtered (df_corr_analysis (df_merged_of df_accuracy df_coverage))
                 selected_periods selected_routes)"
    and "m \<notin> set (snd (tab4_merged
                 (df_merged_filtered (df_corr_analysis (df_merged_of df_accuracy df_coverage))
                    selected_periods selected_routes)))"
    by (simp_all add: df_corr_analysis_def df_merged_filtered_def tab4_merged_def)
next
  assume "a \<in> set df_accuracy" and "\<forall>c \<in> set df_coverage. \<not> key_match a c"
  then show "attach a (Some (- 1)) None \<in> set (df_merged_of df_accuracy df_coverage)"
    by (rule unmatched_accuracy_row)
qed

theorem unmatched_row_sentinel_excluded_witness:
  "ex_a3 \<in> set [ex_a1, ex_a3] \<and> \<not> key_match ex_a3 ex_c1 \<and>
   attach ex_a3 (Some (- 1)) None \<in> set (df_merged_of [ex_a1, ex_a3] [ex_c1]) \<and>
   \<not> key_match (attach ex_a3 (Some (- 1)) None) ex_c1 \<and>
   fractionTrackedExplained (attach ex_a3 (Some (- 1)) None) = Some (- 1) \<and>
   attach ex_a3 (Some (- 1)) None \<notin> set (df_corr_analysis (df_merged_of [ex_a1, ex_a3] [ex_c1])) \<and>
   attach ex_a3 (Some (- 1)) None \<notin>
     set (snd (tab4_merged (df_merged_filtered (df_corr_analysis (df_merged_of [ex_a1, ex_a3] [ex_c1]))
        [''AM''] [''10'', ''20''])))"
proof -
  have 1: "ex_a3 \<in> set [ex_a1, ex_a3]" by simp
  have 2: "\<not> key_match ex_a3 ex_c1"
    by (simp add: key_match_def ex_defs)
  from unmatched_row_sentinel_excluded [of "attach ex_a3 (Some (- 1)) None" "[ex_a1, ex_a3]"
      "[ex_c1]" "[''AM'']" "[''10'', ''20'']" ex_a3] 1 2
  show ?thesis by simp
qed

text \<open>
  The claim as the specification words it fails: with every period and every route
  selected, the unmatched row of route 20 is in the merge output and is not in the merged
  table that tab 4 displays.
\<close>

theorem unmatched_row_absent_from_display:
  "attach ex_a3 (Some (- 1)) None \<in> set (df_merged_of [ex_a1, ex_a3] [ex_c1]) \<and>
   \<not> key_match (attach ex_a3 (Some (- 1)) None) ex_c1 \<and>
   attach ex_a3 (Some (- 1)) None \<notin>
     set (snd (tab4_merged (df_merged_filtered (df_corr_analysis (df_merged_of [ex_a1, ex_a3] [ex_c1]))
        (unique_periods (df_merged_of [ex_a1, ex_a3] [ex_c1]))
        (unique_routes (df_merged_of [ex_a1, ex_a3] [ex_c1])))))"
  by (simp add: eval_defs ex_defs tab4_merged_def)

section \<open>A single contributing row\<close>

text \<open>The Pearson function of numpy on a single pair of values is NaN, whatever the rounding.\<close>

lemma nancorr_single: "nancorr fp [x] [y] = None"
  by (simp add: nancorr_def take_valid_def np_corrcoef_def Let_def)

lemma tab1_single_row: "tab1 fp [m] = Metric None No_clear_correlation"
  by (simp add: tab1_def correlation_def Series_corr_def nancorr_single band_of_def
      float_gt_def float_lt_def)

text \<open>
  Claim C5, evaluated on the program. With one accuracy row and its coverage row, the
  filtered correlation input has one row; the guard on the empty table does not apply,
  the coefficient is NaN, and tab 1 shows the metric (as \<^verbatim>\<open>nan%\<close>) together with the
  "no clear correlation" message instead of an "undefined" signal.
\<close>

theorem single_row_correlation_shown_as_nan:
  "df_merged_filtered (df_corr_analysis (df_merged_of [ex_a1] [ex_c1])) [''AM''] [''10'']
     = [attach ex_a1 (Some 0.9) (Some 0.05)] \<and>
   tab1 fp (df_merged_filtered (df_corr_analysis (df_merged_of [ex_a1] [ex_c1])) [''AM''] [''10''])
     = Metric None No_clear_correlation"
  by (simp add: eval_defs ex_defs tab1_def correlation_def Series_corr_def nancorr_def
      take_valid_def notna_def np_corrcoef_def band_of_def float_gt_def float_lt_def)

section \<open>Filter options and selections\<close>

lemma set_pd_unique [simp]: "set (pd_unique xs) = set xs"
  by (simp add: pd_unique_def)

lemma distinct_pd_unique [simp]: "distinct (pd_unique xs)"
  by (simp add: pd_unique_def)

lemma set_py_sorted [simp]: "set (py_sorted xs) = set xs"
  by (simp add: py_sorted_def)

lemma filter_keeps_all: "(\<And>x. x \<in> set xs \<Longrightarrow> P x) \<Longrightarrow> filter P xs = xs"
  by (induction xs) simp_all

lemma merge_row_nonempty: "merge_row a cov \<noteq> []"
  by (cases "filter (key_match a) cov") (simp_all add: merge_row_def)

lemma image_const_nonempty:
  "xs \<noteq> [] \<Longrightarrow> (\<And>x. x \<in> set xs \<Longrightarrow> f x = c) \<Longrightarrow> f ` set xs = {c}"
  by (cases xs) auto

lemma merge_row_routeID: "routeID ` set (merge_row a cov) = {routeID a}"
proof (rule image_const_nonempty [OF merge_row_nonempty])
  fix m assume "m \<in> set (merge_row a cov)"
  then show "routeID m = routeID a"
    by (cases "filter (key_match a) cov") (auto simp: merge_row_def)
qed

lemma merge_row_timePeriod: "timePeriod ` set (merge_row a cov) = {timePeriod a}"
proof (rule image_const_nonempty [OF merge_row_nonempty])
  fix m assume "m \<in> set (merge_row a cov)"
  then show "timePeriod m = timePeriod a"
    by (cases "filter (key_match a) cov") (auto simp: merge_row_def)
qed

lemma routeID_pd_merge_left: "routeID ` set (pd_merge_left acc cov) = routeID ` set acc"
  by (induction acc) (simp_all add: pd_merge_left_def image_Un merge_row_routeID)

lemma timePeriod_pd_merge_left: "timePeriod ` set (pd_merge_left acc cov) = timePeriod ` set acc"
  by (induction acc) (simp_all add: pd_merge_left_def image_Un merge_row_timePeriod)

lemma routeID_df_merged_of: "routeID ` set (df_merged_of acc cov) = routeID ` set acc"
  using routeID_pd_merge_left [of acc cov]
  by (simp add: df_merged_of_def image_image)

lemma timePeriod_df_merged_of: "timePeriod ` set (df_merged_of acc cov) = timePeriod ` set acc"
  using timePeriod_pd_merge_left [of acc cov]
  by (simp add: df_merged_of_def image_image)

lemma set_unique_routes: "set (unique_routes (df_merged_of acc cov)) = routeID ` set acc"
  by (simp add: unique_routes_def routeID_df_merged_of)

lemma set_unique_periods: "set (unique_periods (df_merged_of acc cov)) = timePeriod ` set acc"
  by (simp add: unique_periods_def timePeriod_df_merged_of)

section \<open>Filtering\<close>

text \<open>
  Claim C7, as the program has it. The options of the two widgets are the distinct periods
  and routes of the merged table, that is, of the accuracy table. With all of them
  selected, in any order, filtering the accuracy table returns it unchanged, row for row
  and in order, and so does filtering the table of the correlation analysis. Filtering the
  coverage table with that selection keeps exactly the coverage rows whose period and
  route both occur in the accuracy table; it returns the coverage table unchanged if and
  only if every coverage row is such a row.
\<close>

theorem full_selection_filter_identity:
  "set selected_periods = set (unique_periods (df_merged_of df_accuracy df_coverage)) \<Longrightarrow>
   set selected_routes = set (unique_routes (df_merged_of df_accuracy df_coverage)) \<Longrightarrow>
   df_acc_filtered df_accuracy selected_periods selected_routes = df_accuracy \<and>
   df_merged_filtered (df_corr_analysis (df_merged_of df_accuracy df_coverage))
      selected_periods selected_routes
     = df_corr_analysis (df_merged_of df_accuracy df_coverage) \<and>
   df_cov_filtered df_coverage selected_periods selected_routes
     = filter (\<lambda>c. cov_timePeriod c \<in> timePeriod ` set df_accuracy \<and>
                    route c \<in> routeID ` set df_accuracy) df_coverage \<and>
   ((df_cov_filtered df_coverage selected_periods selected_routes = df_coverage) =
    (\<forall>c \<in> set df_coverage. cov_timePeriod c \<in> timePeriod ` set df_accuracy \<and>
                             route c \<in> routeID ` set df_accuracy))"
proof -
  let ?M = "df_merged_of df_accuracy df_coverage"
  assume "set selected_periods = set (unique_periods ?M)"
    and "set selected_routes = set (unique_routes ?M)"
  then have sp: "set selected_periods = timePeriod ` set df_accuracy"
    and sr: "set selected_routes = routeID ` set df_accuracy"
    by (simp_all add: set_unique_periods set_unique_routes)
  have acc: "df_acc_filtered df_accuracy selected_periods selected_routes = df_accuracy"
    unfolding df_acc_filtered_def by (intro filter_keeps_all) (simp add: isin_def sp sr)
  have "timePeriod m \<in> set selected_periods \<and> routeID m \<in> set selected_routes"
    if "m \<in> set (df_corr_analysis ?M)" for m
  proof -
    from that have "m \<in> set ?M" by (simp add: df_corr_analysis_def)
    then have "timePeriod m \<in> timePeriod ` set ?M" and "routeID m \<in> routeID ` set ?M"
      by simp_all
    then show ?thesis
      by (simp only: timePeriod_df_merged_of routeID_df_merged_of sp sr)
  qed
  then have corr: "df_merged_filtered (df_corr_analysis ?M) selected_periods selected_routes
      = df_corr_analysis ?M"
    unfolding df_merged_filtered_def by (intro filter_keeps_all) (simp add: isin_def)
  have cov: "df_cov_filtered df_coverage selected_periods selected_routes
     = filter (\<lambda>c. cov_timePeriod c \<in> timePeriod ` set df_accuracy \<and>
                    route c \<in> routeID ` set df_accuracy) df_coverage"
    by (simp add: df_cov_filtered_def isin_def sp sr)
  have "(df_cov_filtered df_coverage selected_periods selected_routes = df_coverage) =
    (\<forall>c \<in> set df_coverage. cov_timePeriod c \<in> timePeriod ` set df_accuracy \<and>
                             route c \<in> routeID ` set df_accuracy)"
    unfolding cov by (rule filter_id_conv)
  with acc corr cov show ?thesis by blast
qed

theorem full_selection_filter_identity_witness:
  "set [''PM'', ''AM''] = set (unique_periods (df_merged_of [ex_a1, ex_a2, ex_a3] [ex_c1, ex_c2])) \<and>
   set [''20'', ''10''] = set (unique_routes (df_merged_of [ex_a1, ex_a2, ex_a3] [ex_c1, ex_c2])) \<and>
   df_acc_filtered [ex_a1, ex_a2, ex_a3] [''PM'', ''AM''] [''20'', ''10''] = [ex_a1, ex_a2, ex_a3] \<and>
   df_merged_filtered (df_corr_analysis (df_merged_of [ex_a1, ex_a2, ex_a3] [ex_c1, ex_c2]))
      [''PM'', ''AM''] [''20'', ''10'']
     = df_corr_analysis (df_merged_of [ex_a1, ex_a2, ex_a3] [ex_c1, ex_c2]) \<and>
   cov_timePeriod ex_c1 \<in> timePeriod ` set [ex_a1, ex_a2, ex_a3] \<and>
   route ex_c1 \<in> routeID ` set [ex_a1, ex_a2, ex_a3] \<and>
   cov_timePeriod ex_c2 \<in> timePeriod ` set [ex_a1, ex_a2, ex_a3] \<and>
   route ex_c2 \<in> routeID ` set [ex_a1, ex_a2, ex_a3] \<and>
   df_cov_filtered [ex_c1, ex_c2] [''PM'', ''AM''] [''20'', ''10''] = [ex_c1, ex_c2]"
proof -
  have m: "df_merged_of [ex_a1, ex_a2, ex_a3] [ex_c1, ex_c2] =
     [attach ex_a1 (Some 0.9) (Some 0.05), attach ex_a2 (Some 0.7) None,
      attach ex_a3 (Some (- 1)) None]"
    by (simp add: eval_defs ex_defs)
  have 1: "set [''PM'', ''AM''] = set (unique_periods (df_merged_of [ex_a1, ex_a2, ex_a3] [ex_c1, ex_c2]))"
    unfolding m by (simp add: unique_periods_def ex_defs) blast
  have 2: "set [''20'', ''10''] = set (unique_routes (df_merged_of [ex_a1, ex_a2, ex_a3] [ex_c1, ex_c2]))"
    unfolding m by (simp add: unique_routes_def ex_defs) blast
  have 3: "cov_timePeriod ex_c1 \<in> timePeriod ` set [ex_a1, ex_a2, ex_a3] \<and>
           route ex_c1 \<in> routeID ` set [ex_a1, ex_a2, ex_a3] \<and>
           cov_timePeriod ex_c2 \<in> timePeriod ` set [ex_a1, ex_a2, ex_a3] \<and>
           route ex_c2 \<in> routeID ` set [ex_a1, ex_a2, ex_a3]"
    by (simp add: ex_defs)
  from full_selection_filter_identity [OF 1 2] 1 2 3 show ?thesis by simp
qed

text \<open>
  The claim as the specification words it fails for the coverage table: route 30 occurs
  in the coverage table only, so it is not among the options, and with every option
  selected the coverage filter drops its row.
\<close>

theorem full_selection_drops_coverage_only_route:
  "df_cov_filtered [ex_c1, ex_c2, ex_c3]
      (unique_periods (df_merged_of [ex_a1, ex_a2, ex_a3] [ex_c1, ex_c2, ex_c3]))
      (unique_routes (df_merged_of [ex_a1, ex_a2, ex_a3] [ex_c1, ex_c2, ex_c3]))
     = [ex_c1, ex_c2] \<and>
   df_cov_filtered [ex_c1, ex_c2, ex_c3]
      (unique_periods (df_merged_of [ex_a1, ex_a2, ex_a3] [ex_c1, ex_c2, ex_c3]))
      (unique_routes (df_merged_of [ex_a1, ex_a2, ex_a3] [ex_c1, ex_c2, ex_c3]))
     \<noteq> [ex_c1, ex_c2, ex_c3]"
  by (simp add: eval_defs ex_defs)

text \<open>
  Claim C8. A selection that no row of a table satisfies filters that table to the empty
  table. On an empty table each of the four aggregation views is empty, and the tabs show
  their "no data" message; nothing is raised.
\<close>

theorem no_match_filter_and_views_empty:
  "((\<forall>r \<in> set df_accuracy. \<not> (timePeriod r \<in> set selected_periods \<and> routeID r \<in> set selected_routes))
      \<longrightarrow> df_acc_filtered df_accuracy selected_periods selected_routes = []) \<and>
   ((\<forall>r \<in> set df_coverage. \<not> (cov_timePeriod r \<in> set selected_periods \<and> route r \<in> set selected_routes))
      \<longrightarrow> df_cov_filtered df_coverage selected_periods selected_routes = []) \<and>
   ((\<forall>r \<in> set corr_analysis. \<not> (timePeriod r \<in> set selected_periods \<and> routeID r \<in> set selected_routes))
      \<longrightarrow> df_merged_filtered corr_analysis selected_periods selected_routes = []) \<and>
   df_grouped [] = [] \<and> df_grouped_route [] = [] \<and>
   df_grouped_period [] = [] \<and> df_grouped_route_cov [] = [] \<and>
   tab2 [] = Info_no_data \<and> tab3 [] = Info_no_data \<and> tab1 fp [] = Warning_no_data"
  by (simp add: df_acc_filtered_def df_cov_filtered_def df_merged_filtered_def isin_def
      filter_empty_conv df_grouped_def df_grouped_route_def df_grouped_period_def
      df_grouped_route_cov_def group_keys_def pd_unique_def sort_values_desc_def
      tab1_def tab2_def tab3_def)

theorem no_match_filter_and_views_empty_witness:
  "\<not> (timePeriod ex_a1 \<in> set [''PM''] \<and> routeID ex_a1 \<in> set [''20'']) \<and>
   \<not> (timePeriod ex_a2 \<in> set [''PM''] \<and> routeID ex_a2 \<in> set [''20'']) \<and>
   \<not> (timePeriod ex_a3 \<in> set [''PM''] \<and> routeID ex_a3 \<in> set [''20'']) \<and>
   \<not> (cov_timePeriod ex_c1 \<in> set [''PM''] \<and> route ex_c1 \<in> set [''20'']) \<and>
   \<not> (cov_timePeriod ex_c2 \<in> set [''PM''] \<and> route ex_c2 \<in> set [''20'']) \<and>
   \<not> (cov_timePeriod ex_c3 \<in> set [''PM''] \<and> route ex_c3 \<in> set [''20'']) \<and>
   df_acc_filtered [ex_a1, ex_a2, ex_a3] [''PM''] [''20''] = [] \<and>
   df_cov_filtered [ex_c1, ex_c2, ex_c3] [''PM''] [''20''] = [] \<and>
   df_merged_filtered (df_corr_analysis (df_merged_of [ex_a1, ex_a2, ex_a3] [ex_c1, ex_c2, ex_c3]))
      [''PM''] [''20''] = [] \<and>
   tab2 (df_acc_filtered [ex_a1, ex_a2, ex_a3] [''PM''] [''20'']) = Info_no_data \<and>
   tab3 (df_cov_filtered [ex_c1, ex_c2, ex_c3] [''PM''] [''20'']) = Info_no_data"
proof -
  have m: "df_merged_of [ex_a1, ex_a2, ex_a3] [ex_c1, ex_c2, ex_c3] =
     [attach ex_a1 (Some 0.9) (Some 0.05), attach ex_a2 (Some 0.7) None,
      attach ex_a3 (Some (- 1)) None]"
    by (simp add: eval_defs ex_defs)
  from no_match_filter_and_views_empty [of "[ex_a1, ex_a2, ex_a3]" "[''PM'']" "[''20'']"
      "[ex_c1, ex_c2, ex_c3]"
      "df_corr_analysis (df_merged_of [ex_a1, ex_a2, ex_a3] [ex_c1, ex_c2, ex_c3])"]
  show ?thesis
    by (simp add: m df_corr_analysis_def) (simp add: ex_defs)
qed

text \<open>
  Claim C10. The route options of the filter are the distinct route identifiers of the
  merged table, which are exactly those of the accuracy table. A route that only the
  coverage table has is not among the options; no selection made of options, the default
  selection included, keeps a coverage row of such a route.
\<close>

theorem selectable_routes_are_accuracy_routes:
  "set (unique_routes (df_merged_of df_accuracy df_coverage)) = routeID ` set df_accuracy \<and>
   distinct (unique_routes (df_merged_of df_accuracy df_coverage)) \<and>
   selectable (unique_routes (df_merged_of df_accuracy df_coverage))
     (default_selected_routes (df_merged_of df_accuracy df_coverage)) \<and>
   (c \<in> set df_coverage \<and> route c \<notin> routeID ` set df_accuracy \<longrightarrow>
      route c \<notin> set (unique_routes (df_merged_of df_accuracy df_coverage))) \<and>
   (c \<in> set df_coverage \<and> route c \<notin> routeID ` set df_accuracy \<and>
    selectable (unique_routes (df_merged_of df_accuracy df_coverage)) selected_routes \<longrightarrow>
      c \<notin> set (df_cov_filtered df_coverage selected_periods selected_routes))"
proof -
  let ?opts = "unique_routes (df_merged_of df_accuracy df_coverage)"
  have s: "set ?opts = routeID ` set df_accuracy"
    by (rule set_unique_routes)
  have d: "distinct ?opts"
    by (simp add: unique_routes_def py_sorted_def)
  have dflt: "selectable ?opts (default_selected_routes (df_merged_of df_accuracy df_coverage))"
    by (simp add: selectable_def default_selected_routes_def set_take_subset)
  have sel: "c \<notin> set (df_cov_filtered df_coverage selected_periods selected_routes)"
    if "route c \<notin> routeID ` set df_accuracy" and "selectable ?opts selected_routes"
  proof -
    from that s have "route c \<notin> set selected_routes"
      unfolding selectable_def by blast
    then show ?thesis by (simp add: df_cov_filtered_def isin_def)
  qed
  from s d dflt sel show ?thesis by simp
qed

theorem selectable_routes_are_accuracy_routes_witness:
  "unique_routes (df_merged_of [ex_a1, ex_a2, ex_a3] [ex_c1, ex_c2, ex_c3]) = [''10'', ''20''] \<and>
   ex_c3 \<in> set [ex_c1, ex_c2, ex_c3] \<and>
   route ex_c3 \<notin> routeID ` set [ex_a1, ex_a2, ex_a3] \<and>
   selectable (unique_routes (df_merged_of [ex_a1, ex_a2, ex_a3] [ex_c1, ex_c2, ex_c3])) [''20'', ''10''] \<and>
   ex_c3 \<notin> set (df_cov_filtered [ex_c1, ex_c2, ex_c3] [''AM'', ''PM''] [''20'', ''10''])"
proof -
  have u: "unique_routes (df_merged_of [ex_a1, ex_a2, ex_a3] [ex_c1, ex_c2, ex_c3]) = [''10'', ''20'']"
    by (simp add: eval_defs ex_defs)
  have r: "route ex_c3 \<notin> routeID ` set [ex_a1, ex_a2, ex_a3]"
    by (simp add: ex_defs)
  have s: "selectable [''10'', ''20''] [''20'', ''10'']"
    by (simp add: selectable_def)
  from selectable_routes_are_accuracy_routes [of "[ex_a1, ex_a2, ex_a3]" "[ex_c1, ex_c2, ex_c3]"
      ex_c3 "[''20'', ''10'']" "[''AM'', ''PM'']"] u r s
  show ?thesis by simp
qed

section \<open>The formula of numpy in exact arithmetic\<close>

subsection \<open>The Cauchy-Schwarz inequality for lists of pairs\<close>

lemma map2_mult_pairs:
  "map2 (*) (map f (map fst ps)) (map g (map snd ps)) = map (\<lambda>(x, y). f x * g y) ps"
  by (induction ps) auto

lemma sum_sq_expand:
  fixes a b :: real
  shows "sum_list (map (\<lambda>(u, v). (a * v - b * u)\<^sup>2) ps) =
         a\<^sup>2 * sum_list (map (\<lambda>(u, v). v\<^sup>2) ps)
         - 2 * a * b * sum_list (map (\<lambda>(u, v). u * v) ps)
         + b\<^sup>2 * sum_list (map (\<lambda>(u, v). u\<^sup>2) ps)"
  by (induction ps) (auto simp: algebra_simps power2_eq_square)

lemma sum_sq_zero_cross:
  "sum_list (map (\<lambda>(u, v). (u::real)\<^sup>2) ps) = 0 \<Longrightarrow> sum_list (map (\<lambda>(u, v). u * v) ps) = 0"
proof (induction ps)
  case Nil
  then show ?case by simp
next
  case (Cons p ps)
  obtain u v where p: "p = (u, v)" by (cases p)
  have r: "0 \<le> sum_list (map (\<lambda>(u, v). (u::real)\<^sup>2) ps)"
    by (rule sum_list_nonneg) auto
  from Cons.prems p have "u\<^sup>2 + sum_list (map (\<lambda>(u, v). u\<^sup>2) ps) = 0" by simp
  with r have "u\<^sup>2 = 0" and "sum_list (map (\<lambda>(u, v). u\<^sup>2) ps) = 0"
    by (auto simp: add_nonneg_eq_0_iff)
  with Cons.IH p show ?case by simp
qed

lemma Cauchy_Schwarz_list:
  fixes ps :: "(real \<times> real) list"
  shows "(sum_list (map (\<lambda>(u, v). u * v) ps))\<^sup>2 \<le>
         sum_list (map (\<lambda>(u, v). u\<^sup>2) ps) * sum_list (map (\<lambda>(u, v). v\<^sup>2) ps)"
proof -
  let ?A = "sum_list (map (\<lambda>(u, v). u\<^sup>2) ps)"
  let ?B = "sum_list (map (\<lambda>(u, v). u * v) ps)"
  let ?C = "sum_list (map (\<lambda>(u, v). v\<^sup>2) ps)"
  have A: "0 \<le> ?A" by (rule sum_list_nonneg) auto
  show ?thesis
  proof (cases "?A = 0")
    case True
    then have "?B = 0" by (rule sum_sq_zero_cross)
    with True show ?thesis by simp
  next
    case False
    with A have pos: "0 < ?A" by simp
    have "0 \<le> sum_list (map (\<lambda>(u, v). (?A * v - ?B * u)\<^sup>2) ps)"
      by (rule sum_list_nonneg) auto
    also have "\<dots> = ?A\<^sup>2 * ?C - 2 * ?A * ?B * ?B + ?B\<^sup>2 * ?A"
      by (rule sum_sq_expand)
    also have "\<dots> = ?A * (?A * ?C - ?B\<^sup>2)"
      by (simp add: algebra_simps power2_eq_square)
    finally have "0 \<le> ?A * ?C - ?B\<^sup>2"
      using pos by (simp add: zero_le_mult_iff)
    then show ?thesis by simp
  qed
qed

subsection \<open>The formula is the textbook coefficient\<close>

text \<open>
  The entries of the covariance matrix are the sums of products of deviations divided by
  \<open>n - 1\<close>; the divisor cancels in the quotient, and by the Cauchy-Schwarz inequality
  the clipping to \<open>[-1, 1]\<close> changes nothing.
\<close>

lemma exact_cov_pairs:
  "exact_cov (map fst ps) (map snd ps) =
     sum_list (map (\<lambda>(x, y). (x - sum_list (map fst ps) / real (length ps)) *
                              (y - sum_list (map snd ps) / real (length ps))) ps)
       / (real (length ps) - 1)"
  by (simp only: exact_cov_def np_mean_def map2_mult_pairs length_map)

lemma exact_cov_fst:
  "exact_cov (map fst ps) (map fst ps) =
     sum_list (map (\<lambda>(x, y). (x - sum_list (map fst ps) / real (length ps))\<^sup>2) ps)
       / (real (length ps) - 1)"
proof -
  have "map2 (*) (map f (map fst ps)) (map f (map fst ps)) = map (\<lambda>(x, y). (f x)\<^sup>2) ps"
    for f :: "real \<Rightarrow> real"
    by (induction ps) (auto simp: power2_eq_square)
  then show ?thesis by (simp only: exact_cov_def np_mean_def length_map)
qed

lemma exact_cov_snd:
  "exact_cov (map snd ps) (map snd ps) =
     sum_list (map (\<lambda>(x, y). (y - sum_list (map snd ps) / real (length ps))\<^sup>2) ps)
       / (real (length ps) - 1)"
proof -
  have "map2 (*) (map f (map snd ps)) (map f (map snd ps)) = map (\<lambda>(x, y). (f y)\<^sup>2) ps"
    for f :: "real \<Rightarrow> real"
    by (induction ps) (auto simp: power2_eq_square)
  then show ?thesis by (simp only: exact_cov_def np_mean_def length_map)
qed

lemma abs_div_le_one:
  fixes a s :: real
  assumes "\<bar>a\<bar> \<le> s"
  shows "\<bar>a / s\<bar> \<le> 1"
proof (cases "s = 0")
  case True
  then show ?thesis by simp
next
  case False
  with assms have "0 < s" by simp
  with assms show ?thesis by simp
qed

lemma ratio_in_unit_interval:
  fixes sxy sxx syy :: real
  assumes cs: "sxy\<^sup>2 \<le> sxx * syy"
  shows "\<bar>sxy / sqrt (sxx * syy)\<bar> \<le> 1"
proof -
  have "\<bar>sxy\<bar> = sqrt (sxy\<^sup>2)" by simp
  also have "\<dots> \<le> sqrt (sxx * syy)" using cs by (rule real_sqrt_le_mono)
  finally show ?thesis by (rule abs_div_le_one)
qed

lemma cancel_scale:
  fixes x a b s :: real
  assumes "s \<noteq> 0"
  shows "x / (s * s) / (a / s) / (b / s) = x / (a * b)"
  using assms by (cases "a = 0"; cases "b = 0"; simp add: field_simps)

lemma normalise_cov:
  fixes sxy sxx syy d :: real
  assumes "0 < d"
  shows "sxy / d / sqrt (sxx / d) / sqrt (syy / d) = sxy / sqrt (sxx * syy)"
proof -
  have d: "d = sqrt d * sqrt d" and nz: "sqrt d \<noteq> 0" using assms by simp_all
  have "sxy / d / sqrt (sxx / d) / sqrt (syy / d)
        = sxy / (sqrt d * sqrt d) / (sqrt sxx / sqrt d) / (sqrt syy / sqrt d)"
    using d by (simp only: real_sqrt_divide)
  also have "\<dots> = sxy / (sqrt sxx * sqrt syy)"
    using nz by (rule cancel_scale)
  also have "\<dots> = sxy / sqrt (sxx * syy)"
    by (simp only: real_sqrt_mult)
  finally show ?thesis .
qed

lemma np_clip_unit: "\<bar>r\<bar> \<le> 1 \<Longrightarrow> np_clip r (- 1) 1 = r"
  by (simp add: np_clip_def abs_le_iff min_def max_def)

lemma exact_corrcoef_pearson:
  "np_corrcoef exact_corrcoef (map fst ps) (map snd ps) = pearson ps"
proof (cases "length ps < 2")
  case True
  then show ?thesis by (simp add: np_corrcoef_def pearson_def Let_def)
next
  case False
  let ?mx = "sum_list (map fst ps) / real (length ps)"
  let ?my = "sum_list (map snd ps) / real (length ps)"
  let ?sxy = "sum_list (map (\<lambda>(x, y). (x - ?mx) * (y - ?my)) ps)"
  let ?sxx = "sum_list (map (\<lambda>(x, y). (x - ?mx)\<^sup>2) ps)"
  let ?syy = "sum_list (map (\<lambda>(x, y). (y - ?my)\<^sup>2) ps)"
  let ?d = "real (length ps) - 1"
  from False have d: "0 < ?d" by simp
  have cs: "?sxy\<^sup>2 \<le> ?sxx * ?syy"
    using Cauchy_Schwarz_list [of "map (\<lambda>(x, y). (x - ?mx, y - ?my)) ps"]
    by (simp add: comp_def case_prod_unfold)
  have clip: "np_clip (?sxy / sqrt (?sxx * ?syy)) (- 1) 1 = ?sxy / sqrt (?sxx * ?syy)"
    using ratio_in_unit_interval [OF cs] by (rule np_clip_unit)
  have zx: "(?sxx / ?d = 0) = (?sxx = 0)" and zy: "(?syy / ?d = 0) = (?syy = 0)"
    using d by simp_all
  show ?thesis
    using False
    by (simp only: np_corrcoef_def exact_corrcoef_def pearson_def Let_def exact_cov_pairs
        exact_cov_fst exact_cov_snd zx zy normalise_cov [OF d] clip length_map if_False) simp
qed


section \<open>The correlation of tab 1\<close>

subsection \<open>The valid positions of the two columns are the complete rows\<close>








section \<open>Accuracy by route\<close>

lemma notna_simps [simp]: "notna (Some x)" "\<not> notna None"
  by (simp_all add: notna_def)

lemma set_group_keys [simp]: "set (group_keys ks) = set ks"
  by (simp add: group_keys_def)

lemma distinct_group_keys [simp]: "distinct (group_keys ks)"
  by (simp add: group_keys_def)

lemma mset_sort_values_desc: "mset (sort_values_desc rows) = mset rows"
  by (simp add: sort_values_desc_def multiset_partition [symmetric])

lemma set_sort_values_desc: "set (sort_values_desc rows) = set rows"
  using mset_sort_values_desc [of rows] by (rule mset_eq_setD)

lemma distinct_keys_sort_values_desc:
  "distinct (map fst (sort_values_desc rows)) = distinct (map fst rows)"
proof -
  have "mset (map fst (sort_values_desc rows)) = mset (map fst rows)"
    by (simp only: mset_map mset_sort_values_desc)
  then show ?thesis by (rule mset_eq_imp_distinct_iff)
qed

lemma sorted_sort_values_desc:
  "sorted_wrt ge_nan_last (map snd (sort_values_desc rows))"
proof -
  let ?P = "\<lambda>r :: 'a \<times> real option. notna (snd r)"
  let ?f = "\<lambda>r :: 'a \<times> real option. the (snd r)"
  let ?R = "\<lambda>x y :: 'a \<times> real option. ge_nan_last (snd x) (snd y)"
  let ?A = "rev (sort_key ?f (rev (filter ?P rows)))"
  let ?B = "filter (\<lambda>r. \<not> ?P r) rows"
  have "sorted (map ?f (sort_key ?f (rev (filter ?P rows))))"
    by (rule sorted_sort_key)
  then have "sorted_wrt (\<lambda>x y. ?f x \<le> ?f y) (sort_key ?f (rev (filter ?P rows)))"
    by (simp only: sorted_map)
  then have "sorted_wrt (\<lambda>x y. ?f y \<le> ?f x) ?A"
    by (simp only: sorted_wrt_rev)
  then have A: "sorted_wrt ?R ?A"
    by (rule sorted_wrt_mono_rel [rotated]) (auto simp: ge_nan_last_def notna_def)
  have "sorted_wrt (\<lambda>x y. True) ?B" by simp
  then have B: "sorted_wrt ?R ?B"
    by (rule sorted_wrt_mono_rel [rotated]) (auto simp: ge_nan_last_def notna_def)
  have AB: "?R x y" if "x \<in> set ?A" and "y \<in> set ?B" for x y
    using that by (auto simp: ge_nan_last_def notna_def)
  from A B AB have "sorted_wrt ?R (?A @ ?B)"
    by (simp only: sorted_wrt_append) blast
  then show ?thesis
    by (simp only: sort_values_desc_def sorted_wrt_map)
qed

lemma nanmean_all_present:
  "vs \<noteq> [] \<Longrightarrow> nanmean (map Some vs) = Some (sum_list vs / real (length vs))"
  by (simp add: nanmean_def present_def np_mean_def notna_def comp_def)

lemma df_grouped_route_rows:
  "set (df_grouped_route acc_filtered) =
     (\<lambda>k. (k, nanmean (map accurate_pct (filter (\<lambda>r. routeID r = k) acc_filtered))))
       ` routeID ` set acc_filtered"
  by (simp add: df_grouped_route_def set_sort_values_desc)

text \<open>
  Claim C9. The accuracy-by-route view has one row per \<open>routeID\<close> of the filtered
  accuracy table; the value of a row is the mean of \<open>accurate_pct\<close> over the rows of
  that route (missing values skipped), which is the sum divided by the count when no value
  is missing; the rows are in descending order of that mean. Routes with means 0.7 for A,
  0.9 for B and 0.5 for C come out in the order B, A, C.
\<close>

theorem accuracy_by_route_mean_descending:
  "fst ` set (df_grouped_route acc_filtered) = routeID ` set acc_filtered \<and>
   distinct (map fst (df_grouped_route acc_filtered)) \<and>
   (\<forall>(k, m) \<in> set (df_grouped_route acc_filtered).
      m = nanmean (map accurate_pct (filter (\<lambda>r. routeID r = k) acc_filtered)) \<and>
      (\<forall>vs. map accurate_pct (filter (\<lambda>r. routeID r = k) acc_filtered) = map Some vs \<longrightarrow>
            m = Some (sum_list vs / real (length vs)))) \<and>
   sorted_wrt ge_nan_last (map snd (df_grouped_route acc_filtered)) \<and>
   df_grouped_route ex_routes = [(''B'', Some 0.9), (''A'', Some 0.7), (''C'', Some 0.5)]"
proof (intro conjI)
  show "fst ` set (df_grouped_route acc_filtered) = routeID ` set acc_filtered"
    by (simp add: df_grouped_route_rows image_image)
  show "distinct (map fst (df_grouped_route acc_filtered))"
    by (simp add: df_grouped_route_def distinct_keys_sort_values_desc comp_def)
  show "sorted_wrt ge_nan_last (map snd (df_grouped_route acc_filtered))"
    unfolding df_grouped_route_def by (rule sorted_sort_values_desc)
  show "\<forall>(k, m) \<in> set (df_grouped_route acc_filtered).
      m = nanmean (map accurate_pct (filter (\<lambda>r. routeID r = k) acc_filtered)) \<and>
      (\<forall>vs. map accurate_pct (filter (\<lambda>r. routeID r = k) acc_filtered) = map Some vs \<longrightarrow>
            m = Some (sum_list vs / real (length vs)))"
  proof (clarify, intro conjI allI impI)
    fix k m
    assume km: "(k, m) \<in> set (df_grouped_route acc_filtered)"
    then obtain r where r: "r \<in> set acc_filtered" and k: "k = routeID r"
      and m: "m = nanmean (map accurate_pct (filter (\<lambda>r. routeID r = k) acc_filtered))"
      by (auto simp: df_grouped_route_rows)
    show "m = nanmean (map accurate_pct (filter (\<lambda>r. routeID r = k) acc_filtered))"
      by (rule m)
    fix vs
    assume vs: "map accurate_pct (filter (\<lambda>r. routeID r = k) acc_filtered) = map Some vs"
    from r k have "filter (\<lambda>r. routeID r = k) acc_filtered \<noteq> []"
      by (auto simp: filter_empty_conv)
    with vs have "vs \<noteq> []" by auto
    with m vs show "m = Some (sum_list vs / real (length vs))"
      by (simp add: nanmean_all_present)
  qed
  show "df_grouped_route ex_routes = [(''B'', Some 0.9), (''A'', Some 0.7), (''C'', Some 0.5)]"
    by (simp add: df_grouped_route_def ex_routes_def ex_route_row_def group_keys_def
        pd_unique_def sort_values_desc_def nanmean_def present_def np_mean_def)
qed

theorem accuracy_by_route_mean_descending_witness:
  "(''A'', Some 0.7) \<in> set (df_grouped_route ex_routes) \<and>
   map accurate_pct (filter (\<lambda>r. routeID r = ''A'') ex_routes) = map Some [0.6, 0.8] \<and>
   Some (0.7::real) = Some (sum_list [0.6, 0.8] / real (length [0.6, 0.8::real])) \<and>
   map fst (df_grouped_route ex_routes) = [''B'', ''A'', ''C'']"
proof -
  note t = accuracy_by_route_mean_descending [of ex_routes]
  from t have ex: "df_grouped_route ex_routes = [(''B'', Some 0.9), (''A'', Some 0.7), (''C'', Some 0.5)]"
    by (elim conjE)
  have vs: "map accurate_pct (filter (\<lambda>r. routeID r = ''A'') ex_routes) = map Some [0.6, 0.8]"
    by (simp add: ex_routes_def ex_route_row_def)
  from ex vs show ?thesis by simp
qed

end
